theory Spec2Isabelle
  imports Complex_Main "HOL-Library.AList"
begin

section \<open>Time, durations and 64-bit arithmetic\<close>

text \<open>
  A \<^verbatim>\<open>time.Time\<close> is an instant in nanoseconds on an unbounded line (Go's range is
  far wider than any duration). A \<^verbatim>\<open>time.Duration\<close> is an \<^verbatim>\<open>int64\<close> count of
  nanoseconds: products of durations wrap around (\<open>int64\<close>), and the difference of two
  instants saturates (\<open>time_Sub\<close>, as \<^verbatim>\<open>Time.Sub\<close> documents).
\<close>

type_synonym time = int
type_synonym duration = int

definition int64 :: "int \<Rightarrow> int" where
  "int64 x = (x + 2 ^ 63) mod 2 ^ 64 - 2 ^ 63"

definition Second :: duration where
  "Second = 1000000000"

definition time_Add :: "time \<Rightarrow> duration \<Rightarrow> time" where
  "time_Add t d = t + d"

definition time_Sub :: "time \<Rightarrow> time \<Rightarrow> duration" where
  "time_Sub t u = (if t - u > 2 ^ 63 - 1 then 2 ^ 63 - 1
                   else if t - u < - (2 ^ 63) then - (2 ^ 63) else t - u)"

definition time_Since :: "time \<Rightarrow> time \<Rightarrow> duration" where
  "time_Since now t = time_Sub now t"

definition time_After :: "time \<Rightarrow> time \<Rightarrow> bool" where
  "time_After t u = (u < t)"

section \<open>Data model\<close>

text \<open>
  Modelled from the spec: the declaration of \<^verbatim>\<open>types.Job\<close> (package pkg/types) is not
  among the sources. The record joins the fields of \<^verbatim>\<open>manager.Job\<close> (job.go:
  \<open>CurrentRetries\<close>, \<open>LastExecuted\<close>, \<open>NextExecutionTime\<close>, \<open>Error\<close>) with the fields of the
  embedded \<^verbatim>\<open>types.Job\<close> that the scheduler reads or writes and that
  cmd/manager/main.go initialises; \<open>TimeFrame\<close> and \<open>TimeInterval\<close> are \<^verbatim>\<open>int64\<close> there,
  \<open>MaxRetries\<close> and \<open>CurrentRetries\<close> are \<^verbatim>\<open>int\<close>. The fields are unbounded integers
  here and the two operations that compute on them wrap around explicitly at 64 bits:
  the product of the time frame with \<^verbatim>\<open>time.Second\<close> and the increment of the retry
  counter.
\<close>

record Job =
  JobID :: string
  Status :: string
  CreatedAt :: time
  TimeFrame :: int
  TimeInterval :: int
  MaxRetries :: int
  CurrentRetries :: int
  LastExecuted :: time
  NextExecutionTime :: time
  Error :: string

text \<open>
  Jobs are shared through pointers (\<^verbatim>\<open>*types.Job\<close>): the registry, the waiting queue,
  the timers and the ready queue all hold the same object. A pointer is an address and
  the store maps every address to the job it holds.
\<close>

type_synonym ptr = nat
type_synonym heap = "ptr \<Rightarrow> Job"

text \<open>
  A quorum; its fields \<^verbatim>\<open>Status\<close> and \<^verbatim>\<open>ChainID\<close> carry the record's name here, since
  a job has fields of the same names, and its two time stamps, which nothing reads,
  are left out.
\<close>

record Quorum =
  QuorumID :: string
  NodeCount :: int
  ActiveNodes :: "string list"
  QuorumStatus :: string
  QuorumChainID :: string

text \<open>
  The percentages of \<^verbatim>\<open>SystemResources\<close> are \<^verbatim>\<open>float64\<close> in the source and real
  numbers here: the scheduler only compares them.
\<close>

record SystemResources =
  CPUUsage :: real
  MemoryUsage :: real
  MaxCPU :: real
  MaxMemory :: real

record WaitingJob =
  Job :: ptr
  EstimatedTime :: time

text \<open>
  The cron facility (robfig/cron) is an external library. Its state is the list of
  registered recurring functions, each the schedule text together with the job its
  closure captured; whether its parser accepts a schedule text is a field of the
  model, fixed when the facility is created.
\<close>

record Cron =
  parser :: "string \<Rightarrow> bool"
  entries :: "(string \<times> ptr) list"

text \<open>
  The scheduler. \<open>jobs\<close> and \<open>quorums\<close> are Go maps, kept as association lists with
  \<open>map_of\<close> for lookup and \<open>AList.update\<close> for assignment; \<open>jobQueue\<close> is the buffered
  channel of capacity 1000, oldest element first; \<open>afterFuncs\<close> are the one-shot timers
  started by \<^verbatim>\<open>time.AfterFunc\<close>. Operations run one at a time, each critical section
  as a whole; the locks, the context and the two network handles are not part of the
  state. A routine that blocks does so holding the registry lock, so nothing is said
  of what the scheduler does after it.
\<close>

record JobScheduler =
  jobs :: "(string \<times> ptr) list"
  quorums :: "(string \<times> Quorum) list"
  jobQueue :: "ptr list"
  waitingQueue :: "WaitingJob list"
  resources :: SystemResources
  Cron :: Cron
  afterFuncs :: "(duration \<times> ptr) list"
  workersCount :: int
  metricsInterval :: duration

datatype error =
    ErrInvalidTimeframe
  | ErrScheduleFailed string
  | ErrJobNotFound string
  | ErrNoQuorums
  | ErrNoActiveKeepers

text \<open>How a routine ends: it returns, it blocks for ever, or it panics.\<close>

datatype fate = Returns | Blocks | Panics

text \<open>
  For a routine with a result: the result it returns, or \<open>Blocked\<close> when it waits for
  ever and returns nothing.
\<close>

datatype 'a outcome = Returned 'a | Blocked

text \<open>
  The registry lock \<^verbatim>\<open>js.mu\<close> is a \<^verbatim>\<open>sync.RWMutex\<close>, which is not re-entrant: a routine
  that holds it for writing and asks for it again, for reading or for writing, waits
  for itself. Every operation below is described from a state in which no routine
  holds the lock; inside an operation, a helper that takes the lock itself is given
  the lock as its caller left it.
\<close>

datatype mutex = Free | Held

section \<open>Construction and resource monitoring\<close>

definition initializeQuorums :: "JobScheduler \<Rightarrow> JobScheduler" where
  "initializeQuorums js =
     js\<lparr>quorums := AList.update ''default''
        \<lparr>QuorumID = ''default'', NodeCount = 3,
         ActiveNodes = [''node1'', ''node2'', ''node3''],
         QuorumStatus = ''active'', QuorumChainID = ''chain_1''\<rparr> (quorums js)\<rparr>"

definition NewJobScheduler :: "(string \<Rightarrow> bool) \<Rightarrow> int \<Rightarrow> JobScheduler" where
  "NewJobScheduler cronParser workers =
     initializeQuorums
       \<lparr>jobs = [], quorums = [], jobQueue = [], waitingQueue = [],
        resources = \<lparr>CPUUsage = 0, MemoryUsage = 0, MaxCPU = 10.0, MaxMemory = 80.0\<rparr>,
        Cron = \<lparr>parser = cronParser, entries = []\<rparr>,
        afterFuncs = [], workersCount = workers, metricsInterval = 5 * Second\<rparr>"

text \<open>
  One tick of \<^verbatim>\<open>monitorResources\<close>: \<open>cpuPercent\<close> is the result of \<^verbatim>\<open>cpu.Percent\<close>
  (\<open>None\<close> for an error) and \<open>memInfo\<close> that of \<^verbatim>\<open>mem.VirtualMemory\<close>.
\<close>

definition monitorResources_tick ::
  "real list option \<Rightarrow> real option \<Rightarrow> JobScheduler \<Rightarrow> JobScheduler" where
  "monitorResources_tick cpuPercent memInfo js =
     (let js1 = (case cpuPercent of
                   Some (c # cs) \<Rightarrow> js\<lparr>resources := (resources js)\<lparr>CPUUsage := c\<rparr>\<rparr>
                 | _ \<Rightarrow> js)
      in case memInfo of
           Some m \<Rightarrow> js1\<lparr>resources := (resources js1)\<lparr>MemoryUsage := m\<rparr>\<rparr>
         | None \<Rightarrow> js1)"

definition checkResourceAvailability :: "JobScheduler \<Rightarrow> bool" where
  "checkResourceAvailability js =
     (CPUUsage (resources js) < MaxCPU (resources js) \<and>
      MemoryUsage (resources js) < MaxMemory (resources js))"

definition SetResourceLimits :: "real \<Rightarrow> real \<Rightarrow> JobScheduler \<Rightarrow> JobScheduler" where
  "SetResourceLimits cpuThreshold memoryThreshold js =
     js\<lparr>resources := (resources js)\<lparr>MaxCPU := cpuThreshold, MaxMemory := memoryThreshold\<rparr>\<rparr>"

section \<open>Admission and scheduling\<close>

text \<open>The verb \<^verbatim>\<open>%d\<close> of \<^verbatim>\<open>fmt.Sprintf\<close>: an integer in decimal, with a sign when negative.\<close>

definition digit :: "nat \<Rightarrow> char" where
  "digit d = ''0123456789'' ! d"

function decimal :: "nat \<Rightarrow> string" where
  "decimal n = (if n < 10 then [digit n] else decimal (n div 10) @ [digit (n mod 10)])"
  by pat_completeness auto
termination
  by (relation "measure id") auto

declare decimal.simps [simp del]

definition Sprintf_d :: "int \<Rightarrow> string" where
  "Sprintf_d i = (if i < 0 then CHR ''-'' # decimal (nat (- i)) else decimal (nat i))"

text \<open>
  \<^verbatim>\<open>expectedCompletion := job.CreatedAt.Add(time.Duration(job.TimeFrame) * time.Second)\<close>
  in \<^verbatim>\<open>calculateEstimatedWaitTime\<close>.
\<close>

definition expectedCompletion :: "Job \<Rightarrow> time" where
  "expectedCompletion job = time_Add (CreatedAt job) (int64 (TimeFrame job * Second))"

text \<open>
  \<^verbatim>\<open>calculateEstimatedWaitTime\<close> takes the registry lock for reading
  (\<^verbatim>\<open>js.mu.RLock()\<close>) around its loop, so it blocks when its caller holds the lock.
  The loop ranges over the registry; Go visits the entries of a map in no fixed order,
  the model in the order of the association list.
\<close>

definition calculateEstimatedWaitTime ::
  "mutex \<Rightarrow> heap \<Rightarrow> time \<Rightarrow> JobScheduler \<Rightarrow> time outcome" where
  "calculateEstimatedWaitTime mu h now js =
     (case mu of
        Held \<Rightarrow> Blocked
      | Free \<Rightarrow>
          Returned
            (fold (\<lambda>(k, job) earliestCompletion.
                     if Status (h job) = ''processing''
                     then (if time_After earliestCompletion (expectedCompletion (h job))
                           then expectedCompletion (h job) else earliestCompletion)
                     else earliestCompletion)
                  (jobs js) (time_Add now (30 * Second))))"

text \<open>
  \<^verbatim>\<open>scheduleJob\<close>: the registry is written first, then the one-shot timer is started,
  then the recurring function is registered; a schedule text that the cron parser
  refuses gives the error, with the registry and the one-shot timer already changed.
\<close>

definition scheduleJob :: "heap \<Rightarrow> JobScheduler \<Rightarrow> ptr \<Rightarrow> JobScheduler \<times> error option" where
  "scheduleJob h js job =
     (let js1 = js\<lparr>jobs := AList.update (JobID (h job)) job (jobs js)\<rparr>;
          cronSpec = ''@every '' @ Sprintf_d (TimeInterval (h job)) @ ''s'';
          js2 = js1\<lparr>afterFuncs := afterFuncs js1 @ [(2 * Second, job)]\<rparr>
      in if parser (Cron js2) cronSpec
         then (js2\<lparr>Cron := (Cron js2)\<lparr>entries := entries (Cron js2) @ [(cronSpec, job)]\<rparr>\<rparr>, None)
         else (js2, Some (ErrScheduleFailed cronSpec)))"

text \<open>
  \<^verbatim>\<open>AddJob\<close> checks the time frame, then takes the registry lock for writing
  (\<^verbatim>\<open>js.mu.Lock()\<close>, released when it returns) and holds it while it calls
  \<^verbatim>\<open>calculateEstimatedWaitTime\<close> or \<^verbatim>\<open>scheduleJob\<close>.
\<close>

definition AddJob ::
  "heap \<Rightarrow> time \<Rightarrow> JobScheduler \<Rightarrow> ptr \<Rightarrow> JobScheduler \<times> error option outcome" where
  "AddJob h now js job =
     (if TimeFrame (h job) \<le> 0 then (js, Returned (Some ErrInvalidTimeframe))
      else (let mu = Held
            in if \<not> checkResourceAvailability js
               then (case calculateEstimatedWaitTime mu h now js of
                       Blocked \<Rightarrow> (js, Blocked)
                     | Returned estimatedTime \<Rightarrow>
                         (js\<lparr>waitingQueue := waitingQueue js @
                               [\<lparr>Job = job, EstimatedTime = estimatedTime\<rparr>]\<rparr>,
                          Returned None))
               else apsnd Returned (scheduleJob h js job)))"

text \<open>
  The function registered with the cron facility in \<^verbatim>\<open>scheduleJob\<close>, fired at \<open>now\<close>.
  A registry without the job's identifier yields a nil \<open>currentJob\<close>, whose status cannot
  be read; a full ready queue blocks the send.
\<close>

definition cronFunc :: "heap \<Rightarrow> time \<Rightarrow> JobScheduler \<Rightarrow> ptr \<Rightarrow> JobScheduler \<times> fate" where
  "cronFunc h now js job =
     (if time_Since now (CreatedAt (h job)) > int64 (TimeFrame (h job) * Second)
      then (js, Returns)
      else (case map_of (jobs js) (JobID (h job)) of
              None \<Rightarrow> (js, Panics)
            | Some currentJob \<Rightarrow>
                (let shouldQueue = (Status (h currentJob) \<noteq> ''processing'' \<and>
                                    Status (h currentJob) \<noteq> ''completed'' \<and>
                                    Status (h currentJob) \<noteq> ''failed'')
                 in if shouldQueue
                    then (if length (jobQueue js) < 1000
                          then (js\<lparr>jobQueue := jobQueue js @ [job]\<rparr>, Returns)
                          else (js, Blocks))
                    else (js, Returns))))"

text \<open>The map returned by \<^verbatim>\<open>GetJobDetails\<close>, one field for each key.\<close>

record JobDetails =
  job_id :: string
  status :: string
  created_at :: time
  last_executed :: time
  current_retries :: int
  time_frame :: int
  time_interval :: int
  error :: string

definition GetJobDetails :: "heap \<Rightarrow> JobScheduler \<Rightarrow> string \<Rightarrow> error + JobDetails" where
  "GetJobDetails h js jobID =
     (case map_of (jobs js) jobID of
        None \<Rightarrow> Inl (ErrJobNotFound jobID)
      | Some job \<Rightarrow>
          Inr \<lparr>job_id = JobID (h job), status = Status (h job), created_at = CreatedAt (h job),
               last_executed = LastExecuted (h job), current_retries = CurrentRetries (h job),
               time_frame = TimeFrame (h job), time_interval = TimeInterval (h job),
               error = Error (h job)\<rparr>)"

text \<open>One tick of the loop of \<^verbatim>\<open>processWaitingQueue\<close>; the error is the one it logs.\<close>

definition processWaitingQueue_tick :: "heap \<Rightarrow> JobScheduler \<Rightarrow> JobScheduler \<times> error option" where
  "processWaitingQueue_tick h js =
     (if checkResourceAvailability js
      then (case waitingQueue js of
              nextJob # rest \<Rightarrow> scheduleJob h (js\<lparr>waitingQueue := rest\<rparr>) (Job nextJob)
            | [] \<Rightarrow> (js, None))
      else (js, None))"

definition GetQueueStatus :: "JobScheduler \<Rightarrow> nat \<times> nat \<times> real \<times> real" where
  "GetQueueStatus js =
     (length (jobs js), length (waitingQueue js),
      CPUUsage (resources js), MemoryUsage (resources js))"

section \<open>The per-job execution routine\<close>

text \<open>
  What one run of \<^verbatim>\<open>processJob\<close> takes from outside the scheduler: the clock, the
  random draws, and the answers of the peer file and of the network layer.
  \<open>peerInfos\<close> is the set of keeper names in the peer file (\<open>None\<close> when
  \<^verbatim>\<open>loadPeerInfo\<close> fails), \<open>connectErr\<close> and \<open>sendErr\<close> the errors of
  \<^verbatim>\<open>ConnectToPeer\<close> and \<^verbatim>\<open>SendMessage\<close>.
\<close>

record Run =
  clock :: time
  keeperIntn :: nat
  selectIntn :: nat
  randFloat64 :: real
  peerInfos :: "string list option"
  connectErr :: "string option"
  sendErr :: "string option"

text \<open>
  \<^verbatim>\<open>selectRandomKeeper\<close> takes the first quorum with an active node that the loop over
  the map meets; the order of the association list stands for that of the map.
\<close>

definition selectRandomKeeper :: "(string \<times> Quorum) list \<Rightarrow> nat \<Rightarrow> error + string" where
  "selectRandomKeeper qs randomIndex =
     (if length qs = 0 then Inl ErrNoQuorums
      else (case find (\<lambda>(k, quorum). length (ActiveNodes quorum) > 0) qs of
              Some (k, quorum) \<Rightarrow>
                Inr (ActiveNodes quorum ! (randomIndex mod length (ActiveNodes quorum)))
            | None \<Rightarrow> Inl ErrNoActiveKeepers))"

text \<open>
  The second critical section of \<^verbatim>\<open>processJob\<close>, from the draw of the outcome on.
  \<^verbatim>\<open>job.CurrentRetries++\<close> is on a Go \<^verbatim>\<open>int\<close>, taken as 64 bits wide: past the largest
  value it wraps around to the smallest.
\<close>

definition MaxInt :: int where
  "MaxInt = 2 ^ 63 - 1"

definition MinInt :: int where
  "MinInt = - (2 ^ 63)"

definition resolveAttempt :: "Run \<Rightarrow> Job \<Rightarrow> Job" where
  "resolveAttempt r job =
     (if randFloat64 r < 0.8 then job\<lparr>Status := ''completed''\<rparr>
      else (let job1 = job\<lparr>CurrentRetries := int64 (CurrentRetries job + 1)\<rparr>
            in if CurrentRetries job1 \<ge> MaxRetries job1
               then job1\<lparr>Status := ''failed'', Error := ''maximum retries exceeded''\<rparr>
               else job1\<lparr>Status := ''pending''\<rparr>))"

text \<open>
  The hand-over to the keeper that ends \<^verbatim>\<open>processJob\<close>. The routine still holds the
  registry lock (its release is deferred) when a failed \<^verbatim>\<open>SendMessage\<close> makes it
  take the same lock again: it waits for itself and the two assignments behind the
  second \<^verbatim>\<open>Lock\<close> are never reached.
\<close>

definition sendToKeeper :: "Run \<Rightarrow> string \<Rightarrow> Job \<Rightarrow> Job \<times> fate" where
  "sendToKeeper r keeperName job =
     (case peerInfos r of
        None \<Rightarrow> (job, Returns)
      | Some names \<Rightarrow>
          if keeperName \<notin> set names then (job, Returns)
          else (case connectErr r of
                  Some err \<Rightarrow> (job, Returns)
                | None \<Rightarrow>
                    (case sendErr r of
                       Some err \<Rightarrow> (job, Blocks)
                     | None \<Rightarrow> (job, Returns))))"

text \<open>
  The first critical section of \<^verbatim>\<open>processJob\<close>, from the first \<^verbatim>\<open>Lock\<close> to the
  \<^verbatim>\<open>Unlock\<close> that follows it on each path: it ends the routine (\<open>Stop\<close>) or goes on
  with the keeper it picked (\<open>Continue\<close>). A directory without the default quorum gives
  a nil quorum, whose node list cannot be read.
\<close>

datatype started = Stop fate | Continue string

definition beginJob :: "(string \<times> Quorum) list \<Rightarrow> Run \<Rightarrow> Job \<Rightarrow> Job \<times> started" where
  "beginJob qs r job =
     (if Status job = ''completed'' \<or> Status job = ''failed'' then (job, Stop Returns)
      else (let job1 = job\<lparr>Status := ''processing'', LastExecuted := clock r\<rparr>
            in case map_of qs ''default'' of
                 None \<Rightarrow> (job1, Stop Panics)
               | Some quorum \<Rightarrow>
                   if length (ActiveNodes quorum) = 0
                   then (job1\<lparr>Status := ''failed'', Error := ''no active keepers available''\<rparr>,
                         Stop Returns)
                   else (job1, Continue (ActiveNodes quorum !
                                          (keeperIntn r mod length (ActiveNodes quorum))))))"

text \<open>The second critical section with the hand-over, on the job as it is by then.\<close>

definition finishJob :: "Run \<Rightarrow> string \<Rightarrow> Job \<Rightarrow> Job \<times> fate" where
  "finishJob r keeperName job = sendToKeeper r keeperName (resolveAttempt r job)"

text \<open>
  \<^verbatim>\<open>processJob\<close> run without another run of the same job in between: between the two
  critical sections it selects a keeper for \<^verbatim>\<open>SendJobToKeeper\<close> (whose own error is
  only logged) and returns if there is none, leaving the job in status processing.
\<close>

definition processJob :: "(string \<times> Quorum) list \<Rightarrow> Run \<Rightarrow> Job \<Rightarrow> Job \<times> fate" where
  "processJob qs r job =
     (case beginJob qs r job of
        (job1, Stop f) \<Rightarrow> (job1, f)
      | (job1, Continue keeperName) \<Rightarrow>
          (case selectRandomKeeper qs (selectIntn r) of
             Inl err \<Rightarrow> (job1, Returns)
           | Inr selectedKeeper \<Rightarrow> finishJob r keeperName job1))"

text \<open>
  Runs of the routine on one job, one after the other. A run that blocks keeps the
  registry lock for ever and a panic ends the process, so no later run changes the job.
\<close>

definition nextRun :: "(string \<times> Quorum) list \<Rightarrow> Job \<times> fate \<Rightarrow> Run \<Rightarrow> Job \<times> fate" where
  "nextRun qs x r = (case x of (job, Returns) \<Rightarrow> processJob qs r job | _ \<Rightarrow> x)"

definition processJobs :: "(string \<times> Quorum) list \<Rightarrow> Run list \<Rightarrow> Job \<Rightarrow> Job \<times> fate" where
  "processJobs qs rs job = foldl (nextRun qs) (job, Returns) rs"

section \<open>Example states\<close>

text \<open>
  A cron parser, two of the jobs that cmd/manager/main.go submits (\<open>job_1\<close> with a
  time frame of 120 s, an interval of 15 s and 2 retries; \<open>job_2\<close> with 60 s, 5 s and 3),
  and a store: address 1 holds \<open>job_1\<close>, 2 holds \<open>job_2\<close>, 3 holds \<open>job_2\<close> with an
  interval of 0, 4 holds \<open>job_2\<close> with a time frame of 0, and every other address holds
  \<open>job_1\<close> in the middle of a run started at 50 s.
\<close>

definition cronAccepts :: "string \<Rightarrow> bool" where
  "cronAccepts spec = True"

definition job_1 :: Job where
  "job_1 = \<lparr>JobID = ''job_1'', Status = ''pending'', CreatedAt = 0, TimeFrame = 120,
            TimeInterval = 15, MaxRetries = 2, CurrentRetries = 0, LastExecuted = 0,
            NextExecutionTime = 0, Error = ''''\<rparr>"

definition job_2 :: Job where
  "job_2 = \<lparr>JobID = ''job_2'', Status = ''pending'', CreatedAt = 0, TimeFrame = 60,
            TimeInterval = 5, MaxRetries = 3, CurrentRetries = 0, LastExecuted = 0,
            NextExecutionTime = 0, Error = ''''\<rparr>"

definition memory :: heap where
  "memory p = (if p = 1 then job_1
               else if p = 2 then job_2
               else if p = 3 then job_2\<lparr>TimeInterval := 0\<rparr>
               else if p = 4 then job_2\<lparr>TimeFrame := 0\<rparr>
               else job_1\<lparr>Status := ''processing'', LastExecuted := 50 * Second\<rparr>)"

text \<open>
  The scheduler as constructed; a scheduler after a sample of 50% CPU and memory; the
  scheduler as constructed after a sample of exactly 10% CPU, and after one of 80%
  memory.
\<close>

definition fresh :: JobScheduler where
  "fresh = NewJobScheduler cronAccepts 5"

definition loaded :: "JobScheduler \<Rightarrow> JobScheduler" where
  "loaded js = monitorResources_tick (Some [50]) (Some 50) js"

definition cpu_at_threshold :: JobScheduler where
  "cpu_at_threshold = monitorResources_tick (Some [10]) (Some 0) fresh"

definition memory_at_threshold :: JobScheduler where
  "memory_at_threshold = monitorResources_tick (Some [5]) (Some 80) fresh"

text \<open>
  A scheduler as constructed whose waiting queue is given as holding \<open>job_1\<close> and then
  \<open>job_2\<close>.
\<close>

definition waiting :: JobScheduler where
  "waiting = fresh\<lparr>waitingQueue := [\<lparr>Job = 1, EstimatedTime = 30 * Second\<rparr>,
                                     \<lparr>Job = 2, EstimatedTime = 30 * Second\<rparr>]\<rparr>"

text \<open>
  Runs of the routine whose draw is a failure (0.9) and a success (0.5), with no peer
  file, and a quorum directory whose default quorum has no active node.
\<close>

definition draw_fails :: Run where
  "draw_fails = \<lparr>clock = 2 * Second, keeperIntn = 0, selectIntn = 0, randFloat64 = 0.9,
                  peerInfos = None, connectErr = None, sendErr = None\<rparr>"

definition draw_succeeds :: Run where
  "draw_succeeds = draw_fails\<lparr>randFloat64 := 0.5\<rparr>"

definition no_keepers :: "(string \<times> Quorum) list" where
  "no_keepers = [(''default'', \<lparr>QuorumID = ''default'', NodeCount = 0, ActiveNodes = [],
                   QuorumStatus = ''active'', QuorumChainID = ''chain_1''\<rparr>)]"

text \<open>
  A scheduler whose registry holds the job at address 5 (in the middle of a run), under
  load.
\<close>

definition busy :: JobScheduler where
  "busy = loaded (fst (AddJob memory 0 fresh 5))"

text \<open>
  \<open>job_1\<close> with no retry and with one retry allowed; the latter after two runs have
  passed the first critical section and the first of them has drawn a failure; and
  \<open>job_1\<close> with five retries allowed and a counter at the largest \<^verbatim>\<open>int\<close>.
\<close>

definition job_at_max_int :: Job where
  "job_at_max_int = job_1\<lparr>MaxRetries := 5, CurrentRetries := MaxInt\<rparr>"

definition job_no_retries :: Job where
  "job_no_retries = job_1\<lparr>MaxRetries := 0\<rparr>"

definition job_one_retry :: Job where
  "job_one_retry = job_1\<lparr>MaxRetries := 1\<rparr>"

definition overlapped :: Job where
  "overlapped =
     fst (finishJob draw_fails ''node1''
       (fst (beginJob (quorums fresh) draw_fails
         (fst (beginJob (quorums fresh) draw_fails job_one_retry)))))"

section \<open>Invariants of the retry counter\<close>

text \<open>
  Both fields are values of an \<^verbatim>\<open>int\<close>, and the counter is below the maximum, or it has
  reached it and the job is failed.
\<close>

definition retryBudget :: "Job \<Rightarrow> bool" where
  "retryBudget job \<longleftrightarrow>
     MinInt \<le> CurrentRetries job \<and> MaxRetries job \<le> MaxInt \<and>
     (CurrentRetries job < MaxRetries job \<or>
      (CurrentRetries job = MaxRetries job \<and> Status job = ''failed''))"

text \<open>The next increment, if there is one, does not wrap around.\<close>

definition noWrap :: "Job \<Rightarrow> bool" where
  "noWrap job \<longleftrightarrow>
     MinInt \<le> CurrentRetries job \<and> MaxRetries job \<le> MaxInt \<and>
     (CurrentRetries job < MaxInt \<or> Status job = ''failed'')"

section \<open>Unfolding the model and the examples\<close>

lemmas example_defs = fresh_def loaded_def busy_def waiting_def cpu_at_threshold_def
  memory_at_threshold_def memory_def job_1_def job_2_def cronAccepts_def

lemmas model_defs = AddJob_def scheduleJob_def NewJobScheduler_def initializeQuorums_def
  monitorResources_tick_def checkResourceAvailability_def calculateEstimatedWaitTime_def
  expectedCompletion_def time_Add_def time_After_def int64_def Second_def Let_def

lemmas run_defs = processJobs_def nextRun_def processJob_def beginJob_def finishJob_def
  selectRandomKeeper_def resolveAttempt_def sendToKeeper_def draw_fails_def draw_succeeds_def
  int64_def

section \<open>Admission\<close>

text \<open>
  C8. A job whose time frame is zero or negative is refused by \<open>AddJob\<close> with the
  invalid-time-frame error, and the scheduler is left as it was: neither the registry
  nor the waiting queue changes, so nothing holds the job for a later attempt.
\<close>

theorem AddJob_rejects_nonpositive_timeframe:
  "TimeFrame (h job) \<le> 0 \<Longrightarrow>
     snd (AddJob h now js job) = Returned (Some ErrInvalidTimeframe) \<and>
     fst (AddJob h now js job) = js \<and>
     jobs (fst (AddJob h now js job)) = jobs js \<and>
     waitingQueue (fst (AddJob h now js job)) = waitingQueue js"
  by (simp add: AddJob_def)

theorem AddJob_rejects_nonpositive_timeframe_witness:
  "TimeFrame (memory 4) \<le> 0 \<and>
   snd (AddJob memory 0 fresh 4) = Returned (Some ErrInvalidTimeframe) \<and>
   fst (AddJob memory 0 fresh 4) = fresh \<and>
   jobs (fst (AddJob memory 0 fresh 4)) = [] \<and>
   waitingQueue (fst (AddJob memory 0 fresh 4)) = []"
proof -
  have tf: "TimeFrame (memory 4) \<le> 0"
    by (simp add: memory_def job_2_def)
  have "jobs fresh = []" "waitingQueue fresh = []"
    by (simp_all add: fresh_def NewJobScheduler_def initializeQuorums_def)
  with tf AddJob_rejects_nonpositive_timeframe [where h = memory and job = 4 and now = 0 and js = fresh]
  show ?thesis
    by simp
qed

text \<open>
  Under load \<open>AddJob\<close> calls \<open>calculateEstimatedWaitTime\<close> while it holds the registry
  lock for writing, and that helper asks for the same lock: the call never returns,
  and the statement behind it that appends to the waiting queue is not reached.
\<close>

lemma AddJob_blocks_under_load:
  "0 < TimeFrame (h job) \<Longrightarrow> \<not> checkResourceAvailability js \<Longrightarrow>
     AddJob h now js job = (js, Blocked)"
  by (simp add: AddJob_def calculateEstimatedWaitTime_def)

text \<open>So no submission changes the waiting queue.\<close>

lemma AddJob_keeps_waitingQueue:
  "waitingQueue (fst (AddJob h now js job)) = waitingQueue js"
  by (simp add: AddJob_def calculateEstimatedWaitTime_def scheduleJob_def Let_def)

text \<open>
  With capacity \<open>AddJob\<close> is \<open>scheduleJob\<close>: the job becomes the registry's entry for
  its identifier; its recurring function is registered and no error is returned when
  the cron parser accepts the schedule text, and otherwise the scheduling error is
  returned with the registry already written.
\<close>

lemma AddJob_with_capacity:
  assumes "0 < TimeFrame (h job)" and "checkResourceAvailability js"
  shows "AddJob h now js job = apsnd Returned (scheduleJob h js job) \<and>
         map_of (jobs (fst (AddJob h now js job))) (JobID (h job)) = Some job \<and>
         (parser (Cron js) (''@every '' @ Sprintf_d (TimeInterval (h job)) @ ''s'') \<longrightarrow>
            snd (AddJob h now js job) = Returned None \<and>
            entries (Cron (fst (AddJob h now js job))) =
              entries (Cron js) @
                [(''@every '' @ Sprintf_d (TimeInterval (h job)) @ ''s'', job)]) \<and>
         (\<not> parser (Cron js) (''@every '' @ Sprintf_d (TimeInterval (h job)) @ ''s'') \<longrightarrow>
            snd (AddJob h now js job) =
              Returned (Some (ErrScheduleFailed
                (''@every '' @ Sprintf_d (TimeInterval (h job)) @ ''s''))) \<and>
            entries (Cron (fst (AddJob h now js job))) = entries (Cron js))"
  using assms
  by (simp add: AddJob_def scheduleJob_def Let_def update_conv')

text \<open>Admission, promotion and sampling keep the thresholds.\<close>

lemma thresholds_kept:
  "MaxCPU (resources (fst (AddJob h now js job))) = MaxCPU (resources js) \<and>
   MaxMemory (resources (fst (AddJob h now js job))) = MaxMemory (resources js) \<and>
   MaxCPU (resources (fst (processWaitingQueue_tick h js))) = MaxCPU (resources js) \<and>
   MaxMemory (resources (fst (processWaitingQueue_tick h js))) = MaxMemory (resources js) \<and>
   MaxCPU (resources (monitorResources_tick cpuPercent memInfo js)) = MaxCPU (resources js) \<and>
   MaxMemory (resources (monitorResources_tick cpuPercent memInfo js)) = MaxMemory (resources js)"
  by (simp add: AddJob_def calculateEstimatedWaitTime_def scheduleJob_def
      processWaitingQueue_tick_def monitorResources_tick_def
      Let_def split: option.split list.split)

text \<open>
  C1. The claim is what \<open>AddJob\<close> is written to do, and the code misses it under load.
  \<open>job_1\<close> (interval 15 s, time frame 120 s) is submitted to the scheduler as constructed
  after a sample of 50% CPU: the capacity check fails, \<open>AddJob\<close> blocks and changes
  nothing, so the job is neither in the registry (no entry for its identifier, no
  recurring function) nor in the waiting queue.
\<close>

theorem submission_under_load_is_lost:
  "0 < TimeInterval (memory 1) \<and> 0 < TimeFrame (memory 1) \<and>
   \<not> checkResourceAvailability (loaded fresh) \<and>
   AddJob memory 0 (loaded fresh) 1 = (loaded fresh, Blocked) \<and>
   map_of (jobs (loaded fresh)) (JobID (memory 1)) = None \<and>
   entries (Cron (loaded fresh)) = [] \<and>
   waitingQueue (loaded fresh) = []"
  by (simp add: example_defs model_defs)

text \<open>
  C10. The thresholds and the strict conjunction are as the claim says; its
  consequence is what \<open>AddJob\<close> is written to do, and the code misses it. On the
  scheduler as constructed (\<open>MaxCPU = 10\<close>, \<open>MaxMemory = 80\<close>), after a sample of exactly
  10% CPU the capacity check fails; \<open>AddJob\<close> of \<open>job_1\<close> then blocks, and the job is
  neither scheduled nor appended to the waiting queue.
\<close>

theorem load_blocks_instead_of_diverting:
  "MaxCPU (resources fresh) = 10 \<and> MaxMemory (resources fresh) = 80 \<and>
   MaxCPU (resources cpu_at_threshold) = 10 \<and> MaxMemory (resources cpu_at_threshold) = 80 \<and>
   CPUUsage (resources cpu_at_threshold) = 10 \<and>
   \<not> checkResourceAvailability cpu_at_threshold \<and>
   0 < TimeFrame (memory 1) \<and>
   AddJob memory 0 cpu_at_threshold 1 = (cpu_at_threshold, Blocked) \<and>
   jobs cpu_at_threshold = [] \<and>
   waitingQueue cpu_at_threshold = []"
  by (simp add: example_defs model_defs)

text \<open>
  C3, as stated, fails: \<open>AddJob\<close> checks the time frame only. The job at address 3 has
  an interval of 0 and a time frame of 60 s; on the scheduler as constructed, with a
  cron parser that accepts \<^verbatim>\<open>@every 0s\<close>, it is written to the registry and no error
  is returned.
\<close>

theorem zero_interval_is_registered:
  "TimeInterval (memory 3) = 0 \<and>
   checkResourceAvailability fresh \<and>
   snd (AddJob memory 0 fresh 3) = Returned None \<and>
   map_of (jobs (fst (AddJob memory 0 fresh 3))) (JobID (memory 3)) = Some 3"
  by (simp add: example_defs model_defs Sprintf_d_def decimal.simps digit_def)

text \<open>
  C3, amended. For a job whose interval is zero or negative, \<open>AddJob\<close> returns the
  invalid-time-frame error exactly when the time frame is zero or negative, and then
  the scheduler is unchanged. With a positive time frame the interval is not validated:
  when the capacity check passes the job is written to the registry and the result is
  no error or the scheduling error of the cron facility.
\<close>

theorem AddJob_validates_timeframe_only:
  assumes "TimeInterval (h job) \<le> 0"
  shows "(snd (AddJob h now js job) = Returned (Some ErrInvalidTimeframe)
            \<longleftrightarrow> TimeFrame (h job) \<le> 0) \<and>
         (TimeFrame (h job) \<le> 0 \<longrightarrow> fst (AddJob h now js job) = js) \<and>
         (0 < TimeFrame (h job) \<and> checkResourceAvailability js \<longrightarrow>
            map_of (jobs (fst (AddJob h now js job))) (JobID (h job)) = Some job \<and>
            (snd (AddJob h now js job) = Returned None \<or>
             snd (AddJob h now js job) =
               Returned (Some (ErrScheduleFailed
                 (''@every '' @ Sprintf_d (TimeInterval (h job)) @ ''s'')))))"
  by (simp add: AddJob_def calculateEstimatedWaitTime_def scheduleJob_def Let_def update_conv')

theorem AddJob_validates_timeframe_only_witness:
  "TimeInterval (memory 3) \<le> 0 \<and> 0 < TimeFrame (memory 3) \<and> checkResourceAvailability fresh \<and>
   snd (AddJob memory 0 fresh 3) \<noteq> Returned (Some ErrInvalidTimeframe) \<and>
   map_of (jobs (fst (AddJob memory 0 fresh 3))) ''job_2'' = Some 3"
proof -
  have a: "TimeInterval (memory 3) \<le> 0" and b: "0 < TimeFrame (memory 3)"
    and c: "checkResourceAvailability fresh"
    by (simp_all add: example_defs model_defs)
  note t = AddJob_validates_timeframe_only [where h = memory and job = 3 and now = 0 and js = fresh, OF a]
  from b t [THEN conjunct1]
  have r1: "snd (AddJob memory 0 fresh 3) \<noteq> Returned (Some ErrInvalidTimeframe)"
    by simp
  from b c t [THEN conjunct2, THEN conjunct2]
  have r2: "map_of (jobs (fst (AddJob memory 0 fresh 3))) ''job_2'' = Some 3"
    by (simp add: memory_def job_2_def)
  from a b c r1 r2 show ?thesis by simp
qed

section \<open>The estimated promotion time\<close>






section \<open>Job details\<close>

text \<open>
  \<open>GetJobDetails\<close> answers from the registry: the not-found error exactly when the
  registry has no entry for the identifier, and otherwise the fields of the registered
  job; a job that the promoter has taken from the head of the waiting queue is found.
\<close>

lemma GetJobDetails_reads_registry:
  "(GetJobDetails h js jobID = Inl (ErrJobNotFound jobID) \<longleftrightarrow> map_of (jobs js) jobID = None) \<and>
   (isl (GetJobDetails h js jobID) \<longleftrightarrow> map_of (jobs js) jobID = None) \<and>
   (map_of (jobs js) jobID = Some p \<longrightarrow>
      GetJobDetails h js jobID =
        Inr \<lparr>job_id = JobID (h p), status = Status (h p), created_at = CreatedAt (h p),
             last_executed = LastExecuted (h p), current_retries = CurrentRetries (h p),
             time_frame = TimeFrame (h p), time_interval = TimeInterval (h p),
             error = Error (h p)\<rparr>) \<and>
   (checkResourceAvailability js \<and> waitingQueue js = nextJob # rest \<longrightarrow>
      \<not> isl (GetJobDetails h (fst (processWaitingQueue_tick h js)) (JobID (h (Job nextJob)))))"
  by (auto simp add: GetJobDetails_def Let_def processWaitingQueue_tick_def
      scheduleJob_def update_conv' split: option.split)

text \<open>
  C9. The lookup is as the claim says; the waiting job of its last part is what
  \<open>AddJob\<close> is written to produce, and the code misses it. On the scheduler as
  constructed \<open>job_2\<close> is not found. After a sample of 80% memory the capacity check
  fails and \<open>AddJob\<close> of \<open>job_2\<close> blocks: it returns nothing and the job is not placed in
  the waiting queue. The call blocks with the registry lock held for writing, which
  \<open>GetJobDetails\<close> needs for reading.
\<close>

theorem waiting_job_is_never_queued:
  "GetJobDetails memory fresh (JobID (memory 2)) = Inl (ErrJobNotFound ''job_2'') \<and>
   0 < TimeFrame (memory 2) \<and>
   \<not> checkResourceAvailability memory_at_threshold \<and>
   AddJob memory 0 memory_at_threshold 2 = (memory_at_threshold, Blocked) \<and>
   waitingQueue (fst (AddJob memory 0 memory_at_threshold 2)) = []"
  by (simp add: example_defs model_defs GetJobDetails_def)

section \<open>The recurring trigger\<close>

lemma int64_le: "int64 x \<le> 2 ^ 63 - 1"
  unfolding int64_def
  using pos_mod_bound [of "2 ^ 64 :: int" "x + 2 ^ 63"] by simp

lemma int64_id: "- (2 ^ 63) \<le> x \<Longrightarrow> x \<le> 2 ^ 63 - 1 \<Longrightarrow> int64 x = x"
  unfolding int64_def by simp

lemma int64_even: "even x \<Longrightarrow> even (int64 x)"
  unfolding int64_def by (simp add: dvd_mod_iff)

text \<open>A whole number of seconds is an even number of nanoseconds, the largest duration is odd.\<close>

lemma int64_seconds_less: "int64 (n * Second) < 2 ^ 63 - 1"
proof -
  have "even (int64 (n * Second))"
    by (rule int64_even) (simp add: Second_def)
  moreover have "odd (2 ^ 63 - 1 :: int)" by simp
  ultimately have "int64 (n * Second) \<noteq> 2 ^ 63 - 1" by metis
  with int64_le [of "n * Second"] show ?thesis by linarith
qed

text \<open>
  Past the time frame the comparison of the timer holds, also where the elapsed time
  saturates or the product of the time frame and a second wraps around.
\<close>

lemma aged_out:
  assumes "0 < T" and "T * Second < now - c"
  shows "int64 (T * Second) < time_Since now c"
proof (cases "now - c > 2 ^ 63 - 1")
  case True
  then have "time_Since now c = 2 ^ 63 - 1"
    by (simp add: time_Since_def time_Sub_def)
  with int64_seconds_less [of T] show ?thesis by simp
next
  case False
  from assms have pos: "0 < T * Second" by (simp add: Second_def)
  with assms False have "int64 (T * Second) = T * Second"
    by (intro int64_id) linarith+
  moreover from assms pos False have "time_Since now c = now - c"
    by (simp add: time_Since_def time_Sub_def)
  ultimately show ?thesis using assms by simp
qed

text \<open>A submission that changes the scheduler at all has a positive time frame.\<close>

lemma AddJob_admits_positive_timeframe:
  "fst (AddJob h now js job) \<noteq> js \<Longrightarrow> 0 < TimeFrame (h job)"
  by (simp add: AddJob_def split: if_splits)

text \<open>
  C5. A job is scheduled only with a positive time frame (\<open>AddJob\<close> refuses the others
  and only \<open>AddJob\<close> fills the waiting queue). Once \<open>now - CreatedAt\<close> exceeds the time
  frame in seconds, the function registered with the cron facility returns without
  touching the ready queue, whatever the scheduler state (so also for a job in status
  pending); the same holds at every later instant \<open>now'\<close> and in every later store \<open>h'\<close>
  that keeps the job's creation time and time frame.
\<close>

theorem cronFunc_aged_out_never_queues:
  assumes "0 < TimeFrame (h job)"
    and "now - CreatedAt (h job) > TimeFrame (h job) * Second"
    and "now \<le> now'"
    and "CreatedAt (h' job) = CreatedAt (h job)"
    and "TimeFrame (h' job) = TimeFrame (h job)"
  shows "cronFunc h' now' js job = (js, Returns) \<and>
         jobQueue (fst (cronFunc h' now' js job)) = jobQueue js"
proof -
  from assms have "TimeFrame (h' job) * Second < now' - CreatedAt (h' job)"
    by simp
  with assms have "int64 (TimeFrame (h' job) * Second) < time_Since now' (CreatedAt (h' job))"
    by (intro aged_out) simp_all
  then show ?thesis
    by (simp add: cronFunc_def)
qed

theorem cronFunc_aged_out_never_queues_witness:
  "0 < TimeFrame (memory 1) \<and>
   120 * Second + 1 - CreatedAt (memory 1) > TimeFrame (memory 1) * Second \<and>
   Status (memory 1) = ''pending'' \<and>
   cronFunc memory (120 * Second) (fst (AddJob memory 0 fresh 1)) 1
     = ((fst (AddJob memory 0 fresh 1))\<lparr>jobQueue := [1]\<rparr>, Returns) \<and>
   cronFunc memory (120 * Second + 1) (fst (AddJob memory 0 fresh 1)) 1
     = (fst (AddJob memory 0 fresh 1), Returns) \<and>
   cronFunc memory (135 * Second) (fst (AddJob memory 0 fresh 1)) 1
     = (fst (AddJob memory 0 fresh 1), Returns)"
proof -
  have a: "0 < TimeFrame (memory 1)"
    and b: "120 * Second + 1 - CreatedAt (memory 1) > TimeFrame (memory 1) * Second"
    and c: "Status (memory 1) = ''pending''"
    by (simp_all add: memory_def job_1_def Second_def)
  have d: "cronFunc memory (120 * Second) (fst (AddJob memory 0 fresh 1)) 1
     = ((fst (AddJob memory 0 fresh 1))\<lparr>jobQueue := [1]\<rparr>, Returns)"
    by (simp add: cronFunc_def AddJob_def scheduleJob_def fresh_def NewJobScheduler_def
        initializeQuorums_def checkResourceAvailability_def memory_def job_1_def Second_def
        time_Since_def time_Sub_def int64_def cronAccepts_def)
  have e: "120 * Second + 1 \<le> 135 * Second"
    by (simp add: Second_def)
  note t = cronFunc_aged_out_never_queues [where h = memory and h' = memory and job = 1
      and now = "120 * Second + 1" and js = "fst (AddJob memory 0 fresh 1)"]
  from a b c d t [where now' = "120 * Second + 1"] t [where now' = "135 * Second"] e
  show ?thesis by simp
qed

section \<open>Promotion from the waiting queue\<close>

lemma promoter_idle:
  "\<not> checkResourceAvailability js \<or> waitingQueue js = [] \<Longrightarrow>
     processWaitingQueue_tick h js = (js, None)"
  by (auto simp add: processWaitingQueue_tick_def)



section \<open>The execution routine\<close>

text \<open>
  C6. When the routine runs on a job that is neither completed nor failed and the
  default quorum has no active node, the job becomes failed with the error
  no active keepers available, its retry counter is unchanged, and the routine returns;
  a later run finds the job failed and does nothing.
\<close>

theorem processJob_without_keepers_fails:
  assumes "Status job \<noteq> ''completed''" and "Status job \<noteq> ''failed''"
    and "map_of qs ''default'' = Some quorum" and "ActiveNodes quorum = []"
  shows "processJob qs r job =
           (job\<lparr>Status := ''failed'', LastExecuted := clock r,
                Error := ''no active keepers available''\<rparr>, Returns) \<and>
         Status (fst (processJob qs r job)) = ''failed'' \<and>
         Error (fst (processJob qs r job)) = ''no active keepers available'' \<and>
         CurrentRetries (fst (processJob qs r job)) = CurrentRetries job \<and>
         processJob qs r' (fst (processJob qs r job)) = (fst (processJob qs r job), Returns)"
  using assms by (simp add: processJob_def beginJob_def)

theorem processJob_without_keepers_fails_witness:
  "Status job_1 \<noteq> ''completed'' \<and> Status job_1 \<noteq> ''failed'' \<and>
   (\<exists>quorum. map_of no_keepers ''default'' = Some quorum \<and> ActiveNodes quorum = []) \<and>
   processJob no_keepers draw_succeeds job_1 =
     (job_1\<lparr>Status := ''failed'', LastExecuted := 2 * Second,
            Error := ''no active keepers available''\<rparr>, Returns) \<and>
   CurrentRetries (fst (processJob no_keepers draw_succeeds job_1)) = 0"
proof -
  have a: "Status job_1 \<noteq> ''completed''" and b: "Status job_1 \<noteq> ''failed''"
    and n: "CurrentRetries job_1 = 0"
    by (simp_all add: job_1_def)
  have c: "map_of no_keepers ''default'' = Some (snd (hd no_keepers))"
    and d: "ActiveNodes (snd (hd no_keepers)) = []"
    by (simp_all add: no_keepers_def)
  have e: "clock draw_succeeds = 2 * Second"
    by (simp add: draw_succeeds_def draw_fails_def)
  from a b c d e n processJob_without_keepers_fails [OF a b c d, where r = draw_succeeds]
  show ?thesis by simp
qed

subsection \<open>Retries\<close>

lemma sendToKeeper_job: "fst (sendToKeeper r k job) = job"
  by (simp add: sendToKeeper_def split: option.split)

lemma processJob_cases:
  "fst (processJob qs r job) = job \<or>
   fst (processJob qs r job) = job\<lparr>Status := ''processing'', LastExecuted := clock r\<rparr> \<or>
   fst (processJob qs r job) = job\<lparr>Status := ''failed'', LastExecuted := clock r,
                                     Error := ''no active keepers available''\<rparr> \<or>
   Status job \<noteq> ''completed'' \<and> Status job \<noteq> ''failed'' \<and>
   fst (processJob qs r job) =
     resolveAttempt r (job\<lparr>Status := ''processing'', LastExecuted := clock r\<rparr>)"
  by (simp add: processJob_def beginJob_def finishJob_def Let_def sendToKeeper_job
      split: option.split sum.split)

lemma processJob_failed: "Status job = ''failed'' \<Longrightarrow> processJob qs r job = (job, Returns)"
  by (simp add: processJob_def beginJob_def)

lemma int64_Suc: "MinInt \<le> n \<Longrightarrow> n < MaxInt \<Longrightarrow> int64 (n + 1) = n + 1"
  unfolding MinInt_def MaxInt_def by (intro int64_id) linarith+

lemma resolveAttempt_MaxRetries: "MaxRetries (resolveAttempt r job) = MaxRetries job"
  by (simp add: resolveAttempt_def Let_def)

lemma resolveAttempt_noWrap:
  assumes "MinInt \<le> CurrentRetries job" and "CurrentRetries job < MaxInt"
    and "MaxRetries job \<le> MaxInt"
  shows "CurrentRetries job \<le> CurrentRetries (resolveAttempt r job) \<and>
         noWrap (resolveAttempt r job)"
  using assms int64_Suc [of "CurrentRetries job"]
  by (auto simp add: resolveAttempt_def Let_def noWrap_def)

lemma resolveAttempt_budget:
  assumes "MinInt \<le> CurrentRetries job" and "CurrentRetries job < MaxRetries job"
    and "MaxRetries job \<le> MaxInt"
  shows "retryBudget (resolveAttempt r job)"
  using assms int64_Suc [of "CurrentRetries job"]
  by (auto simp add: resolveAttempt_def Let_def retryBudget_def)

lemma processJob_MaxRetries: "MaxRetries (fst (processJob qs r job)) = MaxRetries job"
  using processJob_cases [of qs r job]
    resolveAttempt_MaxRetries [of r "job\<lparr>Status := ''processing'', LastExecuted := clock r\<rparr>"]
  by auto

lemma processJob_split:
  obtains (same) "fst (processJob qs r job) = job"
    | (started) "fst (processJob qs r job) = job\<lparr>Status := ''processing'', LastExecuted := clock r\<rparr>"
        "Status job \<noteq> ''failed''"
    | (nokeeper) "fst (processJob qs r job) = job\<lparr>Status := ''failed'', LastExecuted := clock r,
                                     Error := ''no active keepers available''\<rparr>"
    | (resolved) "Status job \<noteq> ''failed''" "fst (processJob qs r job) =
        resolveAttempt r (job\<lparr>Status := ''processing'', LastExecuted := clock r\<rparr>)"
  using processJob_cases [of qs r job] processJob_failed [of job qs r] by fastforce

lemma processJob_noWrap:
  assumes "noWrap job"
  shows "CurrentRetries job \<le> CurrentRetries (fst (processJob qs r job)) \<and>
         noWrap (fst (processJob qs r job))"
proof (cases rule: processJob_split [of qs r job])
  case same
  with assms show ?thesis by simp
next
  case started
  with assms show ?thesis by (auto simp add: noWrap_def)
next
  case nokeeper
  with assms show ?thesis by (auto simp add: noWrap_def)
next
  case resolved
  let ?j = "job\<lparr>Status := ''processing'', LastExecuted := clock r\<rparr>"
  from resolved assms have "MinInt \<le> CurrentRetries ?j" "CurrentRetries ?j < MaxInt"
    "MaxRetries ?j \<le> MaxInt"
    by (simp_all add: noWrap_def)
  from resolveAttempt_noWrap [OF this] resolved show ?thesis by simp
qed

lemma processJob_budget:
  assumes "retryBudget job"
  shows "retryBudget (fst (processJob qs r job))"
proof (cases rule: processJob_split [of qs r job])
  case same
  with assms show ?thesis by simp
next
  case started
  with assms show ?thesis by (auto simp add: retryBudget_def)
next
  case nokeeper
  with assms show ?thesis by (auto simp add: retryBudget_def)
next
  case resolved
  let ?j = "job\<lparr>Status := ''processing'', LastExecuted := clock r\<rparr>"
  from resolved assms have "MinInt \<le> CurrentRetries ?j" "CurrentRetries ?j < MaxRetries ?j"
    "MaxRetries ?j \<le> MaxInt"
    by (simp_all add: retryBudget_def)
  from resolveAttempt_budget [OF this] resolved show ?thesis by simp
qed

lemma nextRun_MaxRetries: "MaxRetries (fst (nextRun qs x r)) = MaxRetries (fst x)"
  using processJob_MaxRetries [of qs r "fst x"]
  by (cases x) (simp add: nextRun_def split: fate.split)

lemma nextRun_noWrap:
  "noWrap (fst x) \<Longrightarrow>
     CurrentRetries (fst x) \<le> CurrentRetries (fst (nextRun qs x r)) \<and> noWrap (fst (nextRun qs x r))"
  using processJob_noWrap [of "fst x" qs r]
  by (cases x) (simp add: nextRun_def split: fate.split)

lemma nextRun_budget: "retryBudget (fst x) \<Longrightarrow> retryBudget (fst (nextRun qs x r))"
  using processJob_budget [of "fst x" qs r]
  by (cases x) (simp add: nextRun_def split: fate.split)

lemma nextRun_failed: "Status (fst x) = ''failed'' \<Longrightarrow> nextRun qs x r = x"
  by (cases x) (simp add: nextRun_def processJob_failed split: fate.split)

lemma runs_MaxRetries: "MaxRetries (fst (foldl (nextRun qs) x rs)) = MaxRetries (fst x)"
  by (induction rs arbitrary: x) (simp_all add: nextRun_MaxRetries)

lemma runs_noWrap:
  "noWrap (fst x) \<Longrightarrow>
     CurrentRetries (fst x) \<le> CurrentRetries (fst (foldl (nextRun qs) x rs)) \<and>
     noWrap (fst (foldl (nextRun qs) x rs))"
proof (induction rs arbitrary: x)
  case Nil
  then show ?case by simp
next
  case (Cons r rs)
  from nextRun_noWrap [OF Cons.prems, of qs r]
  have a: "CurrentRetries (fst x) \<le> CurrentRetries (fst (nextRun qs x r))"
    and b: "noWrap (fst (nextRun qs x r))"
    by simp_all
  from Cons.IH [OF b] a show ?case by simp
qed

lemma runs_budget: "retryBudget (fst x) \<Longrightarrow> retryBudget (fst (foldl (nextRun qs) x rs))"
  by (induction rs arbitrary: x) (simp_all add: nextRun_budget)

lemma runs_failed: "Status (fst x) = ''failed'' \<Longrightarrow> foldl (nextRun qs) x rs = x"
  by (induction rs arbitrary: x) (simp_all add: nextRun_failed)

text \<open>
  C2, as stated, fails: the counter is incremented before it is compared with the
  maximum. A pending job with \<open>MaxRetries = 0\<close> whose first run draws a failure ends
  with \<open>CurrentRetries = 1\<close>.
\<close>

theorem retries_exceed_zero_budget:
  "CurrentRetries job_no_retries = 0 \<and> MaxRetries job_no_retries = 0 \<and>
   Status job_no_retries = ''pending'' \<and>
   CurrentRetries (fst (processJobs (quorums fresh) [draw_fails] job_no_retries)) = 1 \<and>
   MaxRetries (fst (processJobs (quorums fresh) [draw_fails] job_no_retries)) = 0"
  by (simp add: job_no_retries_def job_1_def run_defs fresh_def NewJobScheduler_def
      initializeQuorums_def Let_def)

text \<open>
  The routine releases the registry lock between its two critical sections, and its
  guard lets a job in status processing pass. For runs that overlap the bound does not
  hold either: with \<open>MaxRetries = 1\<close>, after two runs have started and the first has
  drawn a failure (\<open>overlapped\<close>: failed, one retry), the second run makes the job
  completed if it draws a success and counts a second retry if it draws a failure.
\<close>

lemma overlapping_runs_escape_the_budget:
  "Status overlapped = ''failed'' \<and> CurrentRetries overlapped = 1 \<and>
   MaxRetries overlapped = 1 \<and>
   Status (fst (finishJob draw_succeeds ''node1'' overlapped)) = ''completed'' \<and>
   CurrentRetries (fst (finishJob draw_fails ''node1'' overlapped)) = 2"
  by (simp add: overlapped_def job_one_retry_def job_1_def run_defs fresh_def
      NewJobScheduler_def initializeQuorums_def Let_def)

text \<open>
  The increment wraps around: a pending job whose counter is at the largest \<^verbatim>\<open>int\<close>
  and whose run draws a failure ends with the counter at the smallest, below a
  maximum of 5, and in status pending.
\<close>

lemma retry_counter_wraps:
  "CurrentRetries job_at_max_int = 2 ^ 63 - 1 \<and>
   CurrentRetries (fst (processJobs (quorums fresh) [draw_fails] job_at_max_int)) = - (2 ^ 63) \<and>
   Status (fst (processJobs (quorums fresh) [draw_fails] job_at_max_int)) = ''pending''"
  by (simp add: job_at_max_int_def job_1_def MaxInt_def run_defs fresh_def
      NewJobScheduler_def initializeQuorums_def Let_def)

text \<open>
  C2, amended. Over runs of the routine executed one after the other, the maximum is
  not changed and a failed job stays as it is (every later run is a no-op). For a job
  whose counter starts below the largest \<^verbatim>\<open>int\<close> the counter never decreases. For a job
  that starts with \<open>CurrentRetries < MaxRetries\<close> the counter never exceeds the maximum,
  and when it has reached the maximum the job is failed. (\<open>MinInt \<le> CurrentRetries\<close> and
  \<open>MaxRetries \<le> MaxInt\<close> say that the two fields hold values of an \<^verbatim>\<open>int\<close>.)
\<close>

theorem retries_bounded_within_budget:
  "MaxRetries (fst (processJobs qs rs job)) = MaxRetries job \<and>
   (Status (fst (processJobs qs rs job)) = ''failed'' \<longrightarrow>
      processJobs qs (rs @ rs') job = processJobs qs rs job \<and>
      processJob qs r (fst (processJobs qs rs job)) = (fst (processJobs qs rs job), Returns)) \<and>
   (MinInt \<le> CurrentRetries job \<and> CurrentRetries job < MaxInt \<and> MaxRetries job \<le> MaxInt \<longrightarrow>
      CurrentRetries job \<le> CurrentRetries (fst (processJobs qs rs job)) \<and>
      CurrentRetries (fst (processJobs qs rs job))
        \<le> CurrentRetries (fst (processJobs qs (rs @ rs') job))) \<and>
   (MinInt \<le> CurrentRetries job \<and> CurrentRetries job < MaxRetries job \<and>
    MaxRetries job \<le> MaxInt \<longrightarrow>
      CurrentRetries (fst (processJobs qs rs job)) \<le> MaxRetries job \<and>
      (CurrentRetries (fst (processJobs qs rs job)) = MaxRetries job \<longrightarrow>
         Status (fst (processJobs qs rs job)) = ''failed''))"
proof -
  let ?x = "processJobs qs rs job"
  have app: "processJobs qs (rs @ rs') job = foldl (nextRun qs) ?x rs'"
    by (simp add: processJobs_def)
  have m: "MaxRetries (fst ?x) = MaxRetries job"
    using runs_MaxRetries [of qs "(job, Returns)" rs] by (simp add: processJobs_def)
  have f: "Status (fst ?x) = ''failed'' \<longrightarrow>
      processJobs qs (rs @ rs') job = ?x \<and> processJob qs r (fst ?x) = (fst ?x, Returns)"
    by (simp add: app runs_failed processJob_failed)
  have w: "CurrentRetries job \<le> CurrentRetries (fst ?x) \<and>
      CurrentRetries (fst ?x) \<le> CurrentRetries (fst (processJobs qs (rs @ rs') job))"
    if "MinInt \<le> CurrentRetries job \<and> CurrentRetries job < MaxInt \<and> MaxRetries job \<le> MaxInt"
  proof -
    from that have "noWrap (fst (job, Returns))"
      by (simp add: noWrap_def)
    from runs_noWrap [OF this, of qs rs]
    have a: "CurrentRetries job \<le> CurrentRetries (fst ?x)" and n: "noWrap (fst ?x)"
      by (simp_all add: processJobs_def)
    from runs_noWrap [OF n, of qs rs'] a show ?thesis
      by (simp add: app)
  qed
  have b: "CurrentRetries (fst ?x) \<le> MaxRetries job \<and>
      (CurrentRetries (fst ?x) = MaxRetries job \<longrightarrow> Status (fst ?x) = ''failed'')"
    if "MinInt \<le> CurrentRetries job \<and> CurrentRetries job < MaxRetries job \<and>
        MaxRetries job \<le> MaxInt"
  proof -
    from that have "retryBudget (fst (job, Returns))"
      by (simp add: retryBudget_def)
    from runs_budget [OF this, of qs rs] have "retryBudget (fst ?x)"
      by (simp add: processJobs_def)
    with m show ?thesis
      by (auto simp add: retryBudget_def)
  qed
  from m f w b show ?thesis by blast
qed

theorem retries_bounded_within_budget_witness:
  "MinInt \<le> CurrentRetries job_1 \<and> CurrentRetries job_1 < MaxRetries job_1 \<and>
   MaxRetries job_1 \<le> MaxInt \<and> CurrentRetries job_1 < MaxInt \<and>
   CurrentRetries (fst (processJobs (quorums fresh) [draw_fails] job_1)) = 1 \<and>
   Status (fst (processJobs (quorums fresh) [draw_fails] job_1)) = ''pending'' \<and>
   CurrentRetries (fst (processJobs (quorums fresh) [draw_fails, draw_fails] job_1)) = 2 \<and>
   MaxRetries (fst (processJobs (quorums fresh) [draw_fails, draw_fails] job_1)) = 2 \<and>
   Status (fst (processJobs (quorums fresh) [draw_fails, draw_fails] job_1)) = ''failed'' \<and>
   CurrentRetries (fst (processJobs (quorums fresh) [draw_fails, draw_fails] job_1))
     \<le> CurrentRetries (fst (processJobs (quorums fresh)
           ([draw_fails, draw_fails] @ [draw_succeeds]) job_1)) \<and>
   processJobs (quorums fresh) ([draw_fails, draw_fails] @ [draw_succeeds]) job_1
     = processJobs (quorums fresh) [draw_fails, draw_fails] job_1"
proof -
  have a: "MinInt \<le> CurrentRetries job_1" "CurrentRetries job_1 < MaxRetries job_1"
    "MaxRetries job_1 \<le> MaxInt" "CurrentRetries job_1 < MaxInt"
    and m: "MaxRetries job_1 = 2"
    by (simp_all add: job_1_def MinInt_def MaxInt_def)
  have b: "CurrentRetries (fst (processJobs (quorums fresh) [draw_fails] job_1)) = 1"
    "Status (fst (processJobs (quorums fresh) [draw_fails] job_1)) = ''pending''"
    "CurrentRetries (fst (processJobs (quorums fresh) [draw_fails, draw_fails] job_1)) = 2"
    by (simp_all add: run_defs example_defs NewJobScheduler_def
        initializeQuorums_def Let_def)
  note t = retries_bounded_within_budget [where job = job_1 and qs = "quorums fresh"
      and rs = "[draw_fails, draw_fails]" and rs' = "[draw_succeeds]" and r = draw_succeeds]
  from t a b(3) m
  have c: "Status (fst (processJobs (quorums fresh) [draw_fails, draw_fails] job_1)) = ''failed''"
    by simp
  from t c
  have d: "processJobs (quorums fresh) ([draw_fails, draw_fails] @ [draw_succeeds]) job_1
     = processJobs (quorums fresh) [draw_fails, draw_fails] job_1"
    by blast
  from t m
  have e: "MaxRetries (fst (processJobs (quorums fresh) [draw_fails, draw_fails] job_1)) = 2"
    by simp
  from t a
  have g: "CurrentRetries (fst (processJobs (quorums fresh) [draw_fails, draw_fails] job_1))
     \<le> CurrentRetries (fst (processJobs (quorums fresh)
           ([draw_fails, draw_fails] @ [draw_succeeds]) job_1))"
    by blast
  from a b c d e g show ?thesis by blast
qed

end
